theory Spec2Isabelle
  imports Main "HOL-Library.Word"
begin

section \<open>JavaScript strings and values\<close>

text \<open>
  Strings are byte lists. \<open>toLowerCase\<close> folds the ASCII letters, \<open>str_includes s p\<close> is
  \<open>s.includes(p)\<close>, \<open>string_of_int\<close> is the decimal rendering that a template literal
  gives a whole number.
\<close>

definition lower_char :: "char \<Rightarrow> char" where
  "lower_char c =
     (case map_of (zip ''ABCDEFGHIJKLMNOPQRSTUVWXYZ'' ''abcdefghijklmnopqrstuvwxyz'') c of
        None \<Rightarrow> c
      | Some l \<Rightarrow> l)"

definition toLowerCase :: "string \<Rightarrow> string" where
  "toLowerCase s = map lower_char s"

fun startsWith :: "string \<Rightarrow> string \<Rightarrow> bool" where
  "startsWith s [] = True"
| "startsWith [] (p # ps) = False"
| "startsWith (c # cs) (p # ps) = (c = p \<and> startsWith cs ps)"

fun str_includes :: "string \<Rightarrow> string \<Rightarrow> bool" where
  "str_includes [] p = (p = [])"
| "str_includes (c # cs) p = (startsWith (c # cs) p \<or> str_includes cs p)"

definition digit_char :: "nat \<Rightarrow> char" where
  "digit_char d = ''0123456789'' ! d"

fun string_of_nat :: "nat \<Rightarrow> string" where
  "string_of_nat n =
     (if n < 10 then [digit_char n]
      else string_of_nat (n div 10) @ [digit_char (n mod 10)])"

declare string_of_nat.simps [simp del]

definition string_of_int :: "int \<Rightarrow> string" where
  "string_of_int i =
     (if i < 0 then ''-'' @ string_of_nat (nat (- i)) else string_of_nat (nat i))"

text \<open>\<open>xs.join(sep)\<close> on strings.\<close>

fun join :: "string \<Rightarrow> string list \<Rightarrow> string" where
  "join sep [] = []"
| "join sep [x] = x"
| "join sep (x # y # ys) = x @ sep @ join sep (y # ys)"

text \<open>
  The JSON values the frontend reads: \<open>null\<close>, booleans, numbers (whole numbers here),
  strings, arrays and objects.
\<close>

datatype jsval =
    JNull
  | JBool bool
  | JNum int
  | JStr string
  | JArr "jsval list"
  | JObj "(string \<times> jsval) list"

text \<open>
  \<open>!!v\<close> for a value that may be absent (\<open>undefined\<close>). Every array and every object is
  truthy, the empty ones too.
\<close>

fun truthy :: "jsval option \<Rightarrow> bool" where
  "truthy None = False"
| "truthy (Some JNull) = False"
| "truthy (Some (JBool b)) = b"
| "truthy (Some (JNum n)) = (n \<noteq> 0)"
| "truthy (Some (JStr s)) = (s \<noteq> [])"
| "truthy (Some (JArr xs)) = True"
| "truthy (Some (JObj kv)) = True"

text \<open>
  \<open>v.toString()\<close> / \<open>String(v)\<close> of a value that is present. An array is its elements
  joined by commas, a \<open>null\<close> element giving the empty string: \<open>String([])\<close> is empty.
\<close>

fun toString :: "jsval \<Rightarrow> string" where
  "toString JNull = ''null''"
| "toString (JBool b) = (if b then ''true'' else ''false'')"
| "toString (JNum n) = string_of_int n"
| "toString (JStr s) = s"
| "toString (JArr xs) = join '','' (map (\<lambda>x. if x = JNull then [] else toString x) xs)"
| "toString (JObj kv) = ''[object Object]''"

text \<open>\<open>String(v || '')\<close>\<close>

definition str_or_empty :: "jsval option \<Rightarrow> string" where
  "str_or_empty v = (case v of None \<Rightarrow> [] | Some x \<Rightarrow> if truthy (Some x) then toString x else [])"

section \<open>API client (frontend/src/lib/api.ts)\<close>

text \<open>
  Every request goes to \<open>BASE_URL\<close> followed by a path; \<open>BASE_URL\<close> is fixed when the
  frontend is built, so a request is identified here by its path. The network is an
  input: for a request it says after how many milliseconds the exchange ends, and
  whether it ends with a response (headers and body read) or with a network failure.
\<close>

datatype abort_signal = ControllerSignal | CallerSignal string

datatype form_value = FormString string | FormFile string

datatype body = JsonBody jsval | FormBody "(string \<times> form_value) list"

record request_init =
  init_method :: "string option"
  init_headers :: "(string \<times> string) list option"
  init_body :: "body option"
  init_signal :: "string option"

record fetch_request =
  path :: string
  fmethod :: string
  fheaders :: "(string \<times> string) list"
  fbody :: "body option"
  fsignal :: abort_signal

record net_response =
  status :: nat
  statusText :: string
  contentType :: "string option"
  bodyText :: "string option"
  bodyJson :: "jsval option"

datatype fetch_outcome = Arrives nat net_response | Fails nat string

type_synonym network = "fetch_request \<Rightarrow> fetch_outcome"

datatype payload = PJson jsval | PText string

datatype api_error =
    HttpError string
  | AbortError
  | NetworkError string
  | BodyError
  | TypeError string

datatype api_event =
    SetTimeout nat
  | ClearTimeout
  | Abort
  | Fetch fetch_request
  | LogRequest string
  | LogResponseError nat string string
  | LogResponseOk nat

type_synonym api_result = "(api_error + payload) \<times> api_event list"

text \<open>\<open>res.ok\<close>: the status is in the range 200 to 299.\<close>

definition ok :: "net_response \<Rightarrow> bool" where
  "ok res = (200 \<le> status res \<and> status res \<le> 299)"

text \<open>
  \<open>fetch(url, options)\<close> while the timer set by \<open>setTimeout(() => controller.abort(), limit)\<close>
  is pending. When the exchange would take \<open>limit\<close> milliseconds or more the timer
  fires first and aborts the controller; the fetch is rejected by that only if it
  listens to the controller's signal.
\<close>

definition fetch :: "network \<Rightarrow> nat \<Rightarrow> fetch_request \<Rightarrow> (api_error + net_response) \<times> api_event list" where
  "fetch net limit rq =
     (let t = (case net rq of Arrives t res \<Rightarrow> t | Fails t e \<Rightarrow> t);
          r = (case net rq of Arrives t res \<Rightarrow> Inr res | Fails t e \<Rightarrow> Inl (NetworkError e))
      in if limit \<le> t
         then (if fsignal rq = ControllerSignal then Inl AbortError else r, [Fetch rq, Abort])
         else (r, [Fetch rq]))"

text \<open>\<open>await res.text().catch(() => '')\<close>\<close>

definition text_or_empty :: "net_response \<Rightarrow> string" where
  "text_or_empty res = (case bodyText res of None \<Rightarrow> [] | Some t \<Rightarrow> t)"

text \<open>The message of the error thrown for a response that is not ok.\<close>

definition error_message :: "net_response \<Rightarrow> string \<Rightarrow> string" where
  "error_message res text =
     string_of_nat (status res) @ '' '' @ statusText res
       @ (if text \<noteq> [] then '': '' @ text else [])"

text \<open>
  The options \<open>req\<close> passes to fetch: \<open>{ headers: {'Content-Type': 'application/json',
  ...(init?.headers || {})}, signal: controller.signal, ...init }\<close>. The spread of
  \<open>init\<close> comes last, so a header set or a signal in \<open>init\<close> replaces the one built
  here.
\<close>

definition req_options :: "string \<Rightarrow> request_init option \<Rightarrow> fetch_request" where
  "req_options p init =
     (case init of
        None \<Rightarrow>
          \<lparr>path = p, fmethod = ''GET'',
           fheaders = [(''Content-Type'', ''application/json'')],
           fbody = None, fsignal = ControllerSignal\<rparr>
      | Some i \<Rightarrow>
          \<lparr>path = p,
           fmethod = (case init_method i of None \<Rightarrow> ''GET'' | Some m \<Rightarrow> m),
           fheaders = (case init_headers i of
                         None \<Rightarrow> [(''Content-Type'', ''application/json'')]
                       | Some h \<Rightarrow> h),
           fbody = init_body i,
           fsignal = (case init_signal i of None \<Rightarrow> ControllerSignal | Some g \<Rightarrow> CallerSignal g)\<rparr>)"

definition req :: "network \<Rightarrow> string \<Rightarrow> request_init option \<Rightarrow> api_result" where
  "req net p init =
     (let rq = req_options p init;
          fetched = fetch net 20000 rq;
          outcome =
            (case fst fetched of
               Inl e \<Rightarrow> (Inl e, [])
             | Inr res \<Rightarrow>
                 if \<not> ok res then
                   (let text = text_or_empty res
                    in (Inl (HttpError (error_message res text)),
                        [LogResponseError (status res) (statusText res) (take 500 text)]))
                 else
                   (let ct = (case contentType res of None \<Rightarrow> [] | Some c \<Rightarrow> c)
                    in if str_includes ct ''application/json''
                       then (case bodyJson res of
                               None \<Rightarrow> (Inl BodyError, [])
                             | Some j \<Rightarrow> (Inr (PJson j), [LogResponseOk (status res)]))
                       else (case bodyText res of
                               None \<Rightarrow> (Inl BodyError, [])
                             | Some t \<Rightarrow> (Inr (PText t), [LogResponseOk (status res)]))))
      in (fst outcome,
          [SetTimeout 20000, LogRequest p] @ snd fetched @ snd outcome @ [ClearTimeout]))"

text \<open>
  \<open>reqForm\<close>: \<open>{ method: 'POST', body: form, signal: controller.signal, ...(init || {}) }\<close>,
  a 30 second timer; the ok trace is logged before the body is read, always as JSON.
\<close>

definition reqForm_options :: "string \<Rightarrow> (string \<times> form_value) list \<Rightarrow> request_init option \<Rightarrow> fetch_request" where
  "reqForm_options p form init =
     (case init of
        None \<Rightarrow>
          \<lparr>path = p, fmethod = ''POST'', fheaders = [],
           fbody = Some (FormBody form), fsignal = ControllerSignal\<rparr>
      | Some i \<Rightarrow>
          \<lparr>path = p,
           fmethod = (case init_method i of None \<Rightarrow> ''POST'' | Some m \<Rightarrow> m),
           fheaders = (case init_headers i of None \<Rightarrow> [] | Some h \<Rightarrow> h),
           fbody = (case init_body i of None \<Rightarrow> Some (FormBody form) | Some b \<Rightarrow> Some b),
           fsignal = (case init_signal i of None \<Rightarrow> ControllerSignal | Some g \<Rightarrow> CallerSignal g)\<rparr>)"

definition reqForm :: "network \<Rightarrow> string \<Rightarrow> (string \<times> form_value) list \<Rightarrow> request_init option \<Rightarrow> api_result" where
  "reqForm net p form init =
     (let rq = reqForm_options p form init;
          fetched = fetch net 30000 rq;
          outcome =
            (case fst fetched of
               Inl e \<Rightarrow> (Inl e, [])
             | Inr res \<Rightarrow>
                 if \<not> ok res then
                   (let text = text_or_empty res
                    in (Inl (HttpError (error_message res text)),
                        [LogResponseError (status res) (statusText res) (take 500 text)]))
                 else
                   (case bodyJson res of
                      None \<Rightarrow> (Inl BodyError, [LogResponseOk (status res)])
                    | Some j \<Rightarrow> (Inr (PJson j), [LogResponseOk (status res)])))
      in (fst outcome,
          [SetTimeout 30000, LogRequest p] @ snd fetched @ snd outcome @ [ClearTimeout]))"

subsection \<open>The exported operations\<close>

definition hex_digit :: "nat \<Rightarrow> char" where
  "hex_digit d = ''0123456789ABCDEF'' ! d"

definition unreserved :: "char \<Rightarrow> bool" where
  "unreserved c =
     (c \<in> set ''ABCDEFGHIJKLMNOPQRSTUVWXYZabcdefghijklmnopqrstuvwxyz0123456789-_.!~*'()'')"

definition encodeURIComponent :: "string \<Rightarrow> string" where
  "encodeURIComponent s =
     concat (map (\<lambda>c. if unreserved c then [c]
                       else [CHR ''%'', hex_digit (of_char c div 16), hex_digit (of_char c mod 16)]) s)"

definition post_json :: "jsval \<Rightarrow> request_init" where
  "post_json b =
     \<lparr>init_method = Some ''POST'', init_headers = None,
      init_body = Some (JsonBody b), init_signal = None\<rparr>"

definition auditorApi_status :: "network \<Rightarrow> string \<Rightarrow> api_result" where
  "auditorApi_status net artifactHash = req net (''/api/v1/auditor/status/'' @ artifactHash) None"

definition auditorApi_reports :: "network \<Rightarrow> string \<Rightarrow> api_result" where
  "auditorApi_reports net artifactHash = req net (''/api/v1/auditor/reports/'' @ artifactHash) None"

definition auditorApi_attest :: "network \<Rightarrow> jsval \<Rightarrow> api_result" where
  "auditorApi_attest net b = req net ''/api/v1/auditor/attestations'' (Some (post_json b))"

definition auditorApi_listAttestations :: "network \<Rightarrow> string \<Rightarrow> api_result" where
  "auditorApi_listAttestations net artifactHash =
     req net (''/api/v1/auditor/attestations/'' @ artifactHash) None"

definition controlsApi_families :: "network \<Rightarrow> api_result" where
  "controlsApi_families net = req net ''/api/v1/controls/families'' None"

definition controlsApi_list ::
  "network \<Rightarrow> string option \<Rightarrow> string option \<Rightarrow> int option \<Rightarrow> int option \<Rightarrow> api_result" where
  "controlsApi_list net query family page limit =
     req net
       (''/api/v1/controls?query='' @ encodeURIComponent (case query of None \<Rightarrow> [] | Some q \<Rightarrow> q)
          @ ''&family='' @ encodeURIComponent (case family of None \<Rightarrow> [] | Some f \<Rightarrow> f)
          @ ''&page='' @ string_of_int (case page of None \<Rightarrow> 1 | Some n \<Rightarrow> n)
          @ ''&limit='' @ string_of_int (case limit of None \<Rightarrow> 10 | Some n \<Rightarrow> n))
       None"

definition controlsApi_recommend :: "network \<Rightarrow> string \<Rightarrow> int option \<Rightarrow> api_result" where
  "controlsApi_recommend net artifact_text limit =
     req net ''/api/v1/controls/recommend''
       (Some (post_json (JObj [(''artifact_text'', JStr artifact_text),
                               (''limit'', JNum (case limit of None \<Rightarrow> 5 | Some n \<Rightarrow> n))])))"

definition ipfsApi_resolve :: "network \<Rightarrow> string \<Rightarrow> api_result" where
  "ipfsApi_resolve net cid = req net (''/api/v1/ipfs/resolve/'' @ cid) None"

definition artifactsApi_upload :: "network \<Rightarrow> string \<Rightarrow> string option \<Rightarrow> api_result" where
  "artifactsApi_upload net file description =
     reqForm net ''/api/v1/artifacts/upload''
       ((''file'', FormFile file)
          # (case description of
               None \<Rightarrow> []
             | Some d \<Rightarrow> if d \<noteq> [] then [(''description'', FormString d)] else []))
       None"

definition artifactsApi_list :: "network \<Rightarrow> api_result" where
  "artifactsApi_list net = req net ''/api/v1/artifacts/'' None"

definition artifactsApi_profiles :: "network \<Rightarrow> api_result" where
  "artifactsApi_profiles net = req net ''/api/v1/artifacts/profiles'' None"

definition verificationApi_submit :: "network \<Rightarrow> string \<Rightarrow> string \<Rightarrow> string \<Rightarrow> api_result" where
  "verificationApi_submit net artifact_id profile_id wallet_address =
     reqForm net ''/api/v1/verification/submit''
       [(''artifact_id'', FormString artifact_id),
        (''profile_id'', FormString profile_id),
        (''wallet_address'', FormString wallet_address)]
       None"

definition verificationApi_status :: "network \<Rightarrow> string \<Rightarrow> api_result" where
  "verificationApi_status net artifact_hash =
     req net (''/api/v1/verification/status/'' @ artifact_hash) None"

definition verificationApi_reports :: "network \<Rightarrow> string \<Rightarrow> api_result" where
  "verificationApi_reports net artifact_hash =
     req net (''/api/v1/verification/reports/'' @ artifact_hash) None"

text \<open>
  \<open>verificationApi\<close> as the object it is: a property read by name gives the function
  stored under that name, or \<open>undefined\<close>. An argument that the caller leaves out is
  \<open>undefined\<close>, which a form field or a template literal renders as that word.
\<close>

definition arg :: "string list \<Rightarrow> nat \<Rightarrow> string" where
  "arg args i = (if i < length args then args ! i else ''undefined'')"

definition verificationApi :: "string \<Rightarrow> (network \<Rightarrow> string list \<Rightarrow> api_result) option" where
  "verificationApi name =
     (if name = ''submit''
        then Some (\<lambda>net args. verificationApi_submit net (arg args 0) (arg args 1) (arg args 2))
      else if name = ''status''
        then Some (\<lambda>net args. verificationApi_status net (arg args 0))
      else if name = ''reports''
        then Some (\<lambda>net args. verificationApi_reports net (arg args 0))
      else None)"

text \<open>Every operation the client exports, with its arguments.\<close>

datatype api_call =
    AuditorStatus string
  | AuditorReports string
  | AuditorAttest jsval
  | AuditorListAttestations string
  | ControlsFamilies
  | ControlsList "string option" "string option" "int option" "int option"
  | ControlsRecommend string "int option"
  | IpfsResolve string
  | ArtifactsUpload string "string option"
  | ArtifactsList
  | ArtifactsProfiles
  | VerificationSubmit string string string
  | VerificationStatus string
  | VerificationReports string

fun perform :: "network \<Rightarrow> api_call \<Rightarrow> api_result" where
  "perform net (AuditorStatus h) = auditorApi_status net h"
| "perform net (AuditorReports h) = auditorApi_reports net h"
| "perform net (AuditorAttest b) = auditorApi_attest net b"
| "perform net (AuditorListAttestations h) = auditorApi_listAttestations net h"
| "perform net ControlsFamilies = controlsApi_families net"
| "perform net (ControlsList q f p l) = controlsApi_list net q f p l"
| "perform net (ControlsRecommend t l) = controlsApi_recommend net t l"
| "perform net (IpfsResolve c) = ipfsApi_resolve net c"
| "perform net (ArtifactsUpload f d) = artifactsApi_upload net f d"
| "perform net ArtifactsList = artifactsApi_list net"
| "perform net ArtifactsProfiles = artifactsApi_profiles net"
| "perform net (VerificationSubmit a p w) = verificationApi_submit net a p w"
| "perform net (VerificationStatus h) = verificationApi_status net h"
| "perform net (VerificationReports h) = verificationApi_reports net h"

text \<open>
  How long the network takes over an exchange, and the timer events and the requests in
  a trace of the client.
\<close>

definition latency :: "fetch_outcome \<Rightarrow> nat" where
  "latency outcome = (case outcome of Arrives t res \<Rightarrow> t | Fails t e \<Rightarrow> t)"

fun timer_events :: "api_event list \<Rightarrow> api_event list" where
  "timer_events [] = []"
| "timer_events (SetTimeout ms # es) = SetTimeout ms # timer_events es"
| "timer_events (ClearTimeout # es) = ClearTimeout # timer_events es"
| "timer_events (Abort # es) = Abort # timer_events es"
| "timer_events (e # es) = timer_events es"

fun fetched :: "api_event list \<Rightarrow> fetch_request list" where
  "fetched [] = []"
| "fetched (Fetch rq # es) = rq # fetched es"
| "fetched (e # es) = fetched es"

text \<open>The operations that upload a multipart form (they go through \<open>reqForm\<close>).\<close>

fun is_multipart :: "api_call \<Rightarrow> bool" where
  "is_multipart (ArtifactsUpload f d) = True"
| "is_multipart (VerificationSubmit a p w) = True"
| "is_multipart c = False"

section \<open>Wallet hook (hooks/useWallet)\<close>

text \<open>
  The hook keeps two state cells, \<open>accounts\<close> (initially the empty list) and
  \<open>activeAccount\<close> (initially \<open>null\<close>). The wallet SDK (PeraWalletConnect) is
  outside the repository: every promise it returns is an input of the model, either
  resolved with a value or rejected.
\<close>

type_synonym address = string

type_synonym transaction = string

record wallet_state =
  accounts :: "address list"
  activeAccount :: "address option"

datatype 'a promise = Resolved 'a | Rejected string

datatype sdk_call =
    SdkConnect
  | SdkDisconnect
  | SdkReconnectSession
  | SdkOnDisconnect
  | SdkSignTransaction "transaction list list"

datatype wallet_error = WalletError string | SdkFailure string

definition initial_wallet :: wallet_state where
  "initial_wallet = \<lparr>accounts = [], activeAccount = None\<rparr>"

text \<open>\<open>const isConnected = !!activeAccount\<close>: truthiness of a \<open>string | null\<close>.\<close>

definition isConnected :: "wallet_state \<Rightarrow> bool" where
  "isConnected s = (case activeAccount s of None \<Rightarrow> False | Some a \<Rightarrow> a \<noteq> [])"

text \<open>
  \<open>handleDisconnect\<close>: awaits \<open>peraWallet.disconnect()\<close>; the two setters run only when
  that promise resolves.
\<close>

definition handleDisconnect :: "unit promise \<Rightarrow> wallet_state \<Rightarrow> wallet_state \<times> sdk_call list" where
  "handleDisconnect r s =
     (case r of
        Rejected e \<Rightarrow> (s, [SdkDisconnect])
      | Resolved u \<Rightarrow> (s\<lparr>accounts := [], activeAccount := None\<rparr>, [SdkDisconnect]))"

text \<open>
  \<open>handleConnect\<close>: on a resolved \<open>connect()\<close> the accounts cell is always replaced, the
  active account only when the new list is not empty. A rejection is caught (and logged
  unless it is a SESSION_CONNECT error); the state is left as it was.
\<close>

definition handleConnect :: "address list promise \<Rightarrow> wallet_state \<Rightarrow> wallet_state \<times> sdk_call list" where
  "handleConnect r s =
     (case r of
        Rejected e \<Rightarrow> (s, [SdkConnect])
      | Resolved newAccounts \<Rightarrow>
          (let s1 = s\<lparr>accounts := newAccounts\<rparr> in
           (case newAccounts of
              [] \<Rightarrow> s1
            | a # rest \<Rightarrow> s1\<lparr>activeAccount := Some a\<rparr>),
           [SdkConnect, SdkOnDisconnect]))"

text \<open>
  The mount effect: \<open>reconnectSession()\<close>, and only when the SDK reports a live session
  and the list is not empty are both cells set. A rejection goes to \<open>console.info\<close>.
\<close>

definition reconnectSession :: "bool \<Rightarrow> address list promise \<Rightarrow> wallet_state \<Rightarrow> wallet_state \<times> sdk_call list" where
  "reconnectSession sdkIsConnected r s =
     (case r of
        Rejected e \<Rightarrow> (s, [SdkReconnectSession])
      | Resolved newAccounts \<Rightarrow>
          (case newAccounts of
             [] \<Rightarrow> (s, [SdkReconnectSession])
           | a # rest \<Rightarrow>
               if sdkIsConnected
               then (s\<lparr>accounts := newAccounts, activeAccount := Some a\<rparr>,
                     [SdkReconnectSession, SdkOnDisconnect])
               else (s, [SdkReconnectSession])))"

text \<open>
  \<open>signTransactions\<close>: throws \<open>Error("Wallet not connected")\<close> before any SDK call when
  the flag is false; otherwise it passes \<open>[transactions]\<close>, one group, to
  \<open>peraWallet.signTransaction\<close> and returns what that gives.
\<close>

definition signTransactions ::
  "(transaction list list \<Rightarrow> 'sig promise) \<Rightarrow> wallet_state \<Rightarrow> transaction list
     \<Rightarrow> (wallet_error + 'sig) \<times> sdk_call list" where
  "signTransactions sdkSign s transactions =
     (if \<not> isConnected s then (Inl (WalletError ''Wallet not connected''), [])
      else (case sdkSign [transactions] of
              Rejected e \<Rightarrow> Inl (SdkFailure e)
            | Resolved g \<Rightarrow> Inr g,
            [SdkSignTransaction [transactions]]))"

text \<open>The state-changing operations of the hook, and a run of them from the initial state.\<close>

datatype wallet_op =
    Connect "address list promise"
  | Restore bool "address list promise"
  | Disconnect "unit promise"

fun wallet_step :: "wallet_state \<Rightarrow> wallet_op \<Rightarrow> wallet_state" where
  "wallet_step s (Connect r) = fst (handleConnect r s)"
| "wallet_step s (Restore c r) = fst (reconnectSession c r s)"
| "wallet_step s (Disconnect r) = fst (handleDisconnect r s)"

definition wallet_run :: "wallet_op list \<Rightarrow> wallet_state" where
  "wallet_run ops = foldl wallet_step initial_wallet ops"

text \<open>The active account, when set, is the first element of the accounts list.\<close>

definition active_is_first :: "wallet_state \<Rightarrow> bool" where
  "active_is_first s =
     (case activeAccount s of
        None \<Rightarrow> True
      | Some a \<Rightarrow> (case accounts s of [] \<Rightarrow> False | b # rest \<Rightarrow> a = b))"

section \<open>Company portal (frontend/src/pages/CompanyPortal.tsx)\<close>

text \<open>
  The state cells of the component that submission and polling read or write, and the
  \<open>pollingRef\<close> cell, which holds the handle of the timer armed last (here: its delay).
\<close>

datatype vstatus = Pending | Verified | Failed

record portal_state =
  artifactId :: "string option"
  artifactHash :: "string option"
  complianceStandard :: string
  analysisProgress :: nat
  isAnalyzing :: bool
  verificationStatus :: "vstatus option"
  statusData :: "payload option"
  shouldPoll :: bool
  pollingRef :: "nat option"

datatype portal_event =
    Api api_event
  | SetTimer nat
  | ClearTimer
  | LoadFindings string
  | Toast string
  | WindowOpen string
  | DocumentWrite string

subsection \<open>One poll: \<open>tick\<close>\<close>

text \<open>\<open>s?.name\<close> on what a request returned; in a parsed object the last of equal keys wins.\<close>

definition field :: "payload \<Rightarrow> string \<Rightarrow> jsval option" where
  "field s name = (case s of PJson (JObj kv) \<Rightarrow> map_of (rev kv) name | _ \<Rightarrow> None)"

text \<open>\<open>typeof s?.status_code === 'number' ? s.status_code : undefined\<close>\<close>

definition status_code_of :: "payload \<Rightarrow> int option" where
  "status_code_of s = (case field s ''status_code'' of Some (JNum n) \<Rightarrow> Some n | _ \<Rightarrow> None)"

text \<open>\<open>(s?.status || '').toString().toLowerCase()\<close>\<close>

definition status_text_of :: "payload \<Rightarrow> string" where
  "status_text_of s = toLowerCase (str_or_empty (field s ''status''))"

text \<open>The badge value that \<open>tick\<close> stores with \<open>setVerificationStatus\<close>.\<close>

definition normalize_status :: "payload \<Rightarrow> vstatus" where
  "normalize_status s =
     (let code = status_code_of s; text = status_text_of s
      in if code = Some 1 \<or> str_includes text ''verified'' \<or> str_includes text ''success''
           then Verified
         else if code = Some 2 \<or> str_includes text ''fail'' then Failed
         else Pending)"

text \<open>
  The test that ends polling. \<open>verificationStatus\<close> is the constant of the render in
  which the effect ran: the value the closure captured, not the one just stored.
\<close>

definition is_terminal :: "vstatus option \<Rightarrow> payload \<Rightarrow> bool" where
  "is_terminal captured s =
     (captured = Some Verified \<or> captured = Some Failed
      \<or> status_code_of s = Some 1 \<or> status_code_of s = Some 2)"

text \<open>\<open>const delay = attempts <= 3 ? 3000 : 8000\<close>, after \<open>attempts += 1\<close>.\<close>

definition backoff :: "nat \<Rightarrow> nat" where
  "backoff attempts = (if attempts \<le> 3 then 3000 else 8000)"

text \<open>
  \<open>tick\<close>, given the network as it answers this poll, the hash and the status captured
  by the effect, the attempt counter and the state. It returns the new state, the new
  counter when the next poll was scheduled (nothing when polling ended), and what was
  done. What \<open>loadFindings\<close> does afterwards is recorded as one event: it touches none of
  the cells above and makes no status request.
\<close>

definition tick ::
  "network \<Rightarrow> string \<Rightarrow> vstatus option \<Rightarrow> nat \<Rightarrow> portal_state
     \<Rightarrow> (portal_state \<times> nat option) \<times> portal_event list" where
  "tick net h captured attempts st =
     (let answer = verificationApi_status net h;
          polled = map Api (snd answer);
          delay = backoff (attempts + 1)
      in case fst answer of
           Inl e \<Rightarrow>
             ((st\<lparr>pollingRef := Some delay\<rparr>, Some (attempts + 1)), polled @ [SetTimer delay])
         | Inr s \<Rightarrow>
             (let st1 = st\<lparr>statusData := Some s, verificationStatus := Some (normalize_status s)\<rparr>
              in if is_terminal captured s
                 then ((st1\<lparr>pollingRef := None, shouldPoll := False\<rparr>, None),
                       polled @ (if pollingRef st \<noteq> None then [ClearTimer] else [])
                         @ [LoadFindings h])
                 else ((st1\<lparr>pollingRef := Some delay\<rparr>, Some (attempts + 1)),
                       polled @ [SetTimer delay])))"

subsection \<open>The polling effect as a state machine\<close>

text \<open>
  The effect runs when \<open>artifactHash\<close> or \<open>shouldPoll\<close> changes. With a hash and
  \<open>shouldPoll\<close> it clears a timer left in \<open>pollingRef\<close>, sets the counter to 0 and calls
  \<open>tick\<close> at once, so a request is in flight. From then on three things can happen: the
  request in flight is answered, the armed timer fires (which calls \<open>tick\<close>), or the
  effect's cleanup runs (unmount, or a change of the dependencies). The cleanup clears
  the timer whose handle is in \<open>pollingRef\<close>; it has no means to stop a \<open>tick\<close> that is
  waiting for its answer.
\<close>

datatype phase = Idle | InFlight | Armed

record poll_loop =
  phase :: phase
  attempts :: nat
  hash :: string
  captured :: "vstatus option"
  view :: portal_state

datatype poll_input = Reply fetch_outcome | TimerFires | Cleanup

definition startPolling :: "portal_state \<Rightarrow> poll_loop \<times> portal_event list" where
  "startPolling st =
     (case artifactHash st of
        None \<Rightarrow>
          (\<lparr>phase = Idle, attempts = 0, hash = [], captured = verificationStatus st, view = st\<rparr>, [])
      | Some h \<Rightarrow>
          if h = [] \<or> \<not> shouldPoll st
          then (\<lparr>phase = Idle, attempts = 0, hash = h, captured = verificationStatus st,
                 view = st\<rparr>, [])
          else (\<lparr>phase = InFlight, attempts = 0, hash = h, captured = verificationStatus st,
                 view = st\<lparr>pollingRef := None\<rparr>\<rparr>,
                if pollingRef st \<noteq> None then [ClearTimer] else []))"

fun poll_step :: "poll_loop \<Rightarrow> poll_input \<Rightarrow> poll_loop \<times> portal_event list" where
  "poll_step l (Reply outcome) =
     (if phase l \<noteq> InFlight then (l, [])
      else (let r = tick (\<lambda>rq. outcome) (hash l) (captured l) (attempts l) (view l)
            in case snd (fst r) of
                 None \<Rightarrow> (l\<lparr>phase := Idle, view := fst (fst r)\<rparr>, snd r)
               | Some n \<Rightarrow> (l\<lparr>phase := Armed, attempts := n, view := fst (fst r)\<rparr>, snd r)))"
| "poll_step l TimerFires =
     (if phase l = Armed then (l\<lparr>phase := InFlight\<rparr>, []) else (l, []))"
| "poll_step l Cleanup =
     (l\<lparr>phase := (if phase l = Armed then Idle else phase l),
        view := (view l)\<lparr>pollingRef := None\<rparr>\<rparr>,
      if pollingRef (view l) \<noteq> None then [ClearTimer] else [])"

fun poll_run :: "poll_loop \<Rightarrow> poll_input list \<Rightarrow> poll_loop \<times> portal_event list" where
  "poll_run l [] = (l, [])"
| "poll_run l (i # is) =
     (let r = poll_step l i; rest = poll_run (fst r) is
      in (fst rest, snd r @ snd rest))"

text \<open>The delays of the timers armed, and the status requests made, in a trace.\<close>

fun timers :: "portal_event list \<Rightarrow> nat list" where
  "timers [] = []"
| "timers (SetTimer d # es) = d # timers es"
| "timers (e # es) = timers es"

fun requests :: "portal_event list \<Rightarrow> string list" where
  "requests [] = []"
| "requests (Api (Fetch rq) # es) = path rq # requests es"
| "requests (e # es) = requests es"

text \<open>A poll that does not end polling: the request fails, or its answer is not terminal.\<close>

definition keeps_polling :: "string \<Rightarrow> vstatus option \<Rightarrow> fetch_outcome \<Rightarrow> bool" where
  "keeps_polling h c outcome =
     (case fst (verificationApi_status (\<lambda>rq. outcome) h) of
        Inl e \<Rightarrow> True
      | Inr s \<Rightarrow> \<not> is_terminal c s)"

text \<open>A run in which each answer is followed by the timer it armed firing.\<close>

definition answered :: "fetch_outcome list \<Rightarrow> poll_input list" where
  "answered os = concat (map (\<lambda>outcome. [Reply outcome, TimerFires]) os)"

subsection \<open>Submission: \<open>startAnalysis\<close>\<close>

text \<open>
  The call \<open>verificationApi.submitByArtifact(artifactId, complianceStandard)\<close> reads the
  property \<open>submitByArtifact\<close> of the object and calls what it finds; calling
  \<open>undefined\<close> throws a TypeError inside the \<open>try\<close>, which the \<open>catch\<close> turns into the
  failure branch. So does reading \<open>res.artifact_hash\<close> of a \<open>null\<close> answer, after the
  progress was set to 100.
\<close>

definition analysis_failed :: "portal_state \<Rightarrow> api_event list \<Rightarrow> portal_state \<times> portal_event list" where
  "analysis_failed st evs =
     (st\<lparr>isAnalyzing := False, verificationStatus := Some Failed\<rparr>,
      map Api evs @ [Toast ''Verification failed''])"

definition startAnalysis :: "network \<Rightarrow> portal_state \<Rightarrow> portal_state \<times> portal_event list" where
  "startAnalysis net st =
     (case artifactId st of
        None \<Rightarrow> (st, [Toast ''Missing requirements''])
      | Some aid \<Rightarrow>
          if aid = [] \<or> complianceStandard st = [] then (st, [Toast ''Missing requirements''])
          else
            (let st1 = st\<lparr>isAnalyzing := True, analysisProgress := 0\<rparr>
             in case verificationApi ''submitByArtifact'' of
                  None \<Rightarrow> analysis_failed st1 []
                | Some submitByArtifact \<Rightarrow>
                    (let answer = submitByArtifact net [aid, complianceStandard st]
                     in case fst answer of
                          Inl e \<Rightarrow> analysis_failed st1 (snd answer)
                        | Inr (PJson JNull) \<Rightarrow>
                            analysis_failed (st1\<lparr>analysisProgress := 100\<rparr>) (snd answer)
                        | Inr res \<Rightarrow>
                            (st1\<lparr>analysisProgress := 100, isAnalyzing := False,
                                 verificationStatus := Some Pending,
                                 artifactHash :=
                                   (case field res ''artifact_hash'' of
                                      None \<Rightarrow> artifactHash st1
                                    | Some v \<Rightarrow>
                                        if truthy (Some v) then Some (toString v)
                                        else artifactHash st1),
                                 shouldPoll := True\<rparr>,
                             map Api (snd answer) @ [Toast ''Verification started'']))))"

text \<open>The backend requests in a trace of the portal.\<close>

fun fetches :: "portal_event list \<Rightarrow> fetch_request list" where
  "fetches [] = []"
| "fetches (Api (Fetch rq) # es) = rq # fetches es"
| "fetches (e # es) = fetches es"

section \<open>Printable export (\<open>exportPdf\<close> in CompanyPortal.tsx)\<close>

text \<open>
  The cells the export reads. A finding is whatever the assessment document holds; the
  export reads five of its properties, each of which may be absent or hold any value
  (\<open>control_tags\<close> counts only when it is an array). The score and the two counts are
  numbers or \<open>null\<close>.
\<close>

record finding =
  severity :: "jsval option"
  title :: "jsval option"
  ident :: "jsval option"
  description :: "jsval option"
  control_tags :: "jsval option"

record oscal_links =
  directory_cid :: string
  directory_url :: string
  component_definition :: string
  assessment_plan :: string
  assessment_results :: string
  poam :: string





























section \<open>API test runner (compliledger/tests/run\_api\_test.sh)\<close>

text \<open>
  The script has no \<open>set -e\<close>: a command that fails does not stop it. What the run
  depends on is whether \<open>venv/bin/activate\<close> exists, the process id the shell gives the
  server it starts in the background, and the exit status of the integration test, which
  like every exit status is eight bits wide.
\<close>

type_synonym exit_status = "8 word"

record sh_env =
  venv_exists :: bool
  server_pid :: nat
  test_status :: exit_status

datatype sh_event =
    Echo string
  | Export string string
  | Cd string
  | Source string
  | StartInBackground string
  | Sleep nat
  | Run string
  | Kill nat
  | Exit exit_status

text \<open>The two marks of the banner lines (U+2705 and U+274C, three bytes each).\<close>

definition check_mark :: string where
  "check_mark = [CHR 0xE2, CHR 0x9C, CHR 0x85]"

definition cross_mark :: string where
  "cross_mark = [CHR 0xE2, CHR 0x9D, CHR 0x8C]"

definition banner :: "exit_status \<Rightarrow> sh_event list" where
  "banner TEST_EXIT_CODE =
     (if TEST_EXIT_CODE = 0
      then [Echo (check_mark @ '' API Integration Test: SUCCESS''),
            Echo ''All tests passed successfully!'']
      else [Echo (cross_mark @ '' API Integration Test: FAILED''),
            Echo ''Please check the logs for details.''])"

definition run_api_test :: "sh_env \<Rightarrow> sh_event list" where
  "run_api_test env =
     [Echo ''=========================================='',
      Echo ''CompliLedger API Integration Test Runner'',
      Echo ''=========================================='',
      Export ''DEBUG'' ''true'',
      Export ''API_HOST'' ''localhost'',
      Export ''API_PORT'' ''8000'',
      Cd ''$PROJECT_ROOT'',
      Echo ''[1/4] Setting up Python environment...'']
     @ (if venv_exists env then [Source ''venv/bin/activate''] else [])
     @ [Echo ''[2/4] Starting FastAPI server in the background...'',
        Echo ''Current directory: $(pwd)'',
        Cd ''$PROJECT_ROOT/compliledger/backend'',
        Echo ''Starting server from: $(pwd)'',
        StartInBackground ''python3 -m app.main'',
        Echo ''Waiting for API server to start...'',
        Sleep 5,
        Echo ''[3/4] Running API integration test...'',
        Cd ''$PROJECT_ROOT'',
        Run ''python3 $SCRIPT_DIR/test_api_integration.py'',
        Echo ''[4/4] Cleaning up...'',
        Kill (server_pid env),
        Echo [],
        Echo ''=========================================='']
     @ banner (test_status env)
     @ [Echo ''=========================================='',
        Exit (test_status env)]"

text \<open>What the script does to processes, in order, and the status it exits with.\<close>

fun process_steps :: "sh_event list \<Rightarrow> sh_event list" where
  "process_steps [] = []"
| "process_steps (Echo s # es) = process_steps es"
| "process_steps (Export k v # es) = process_steps es"
| "process_steps (Cd d # es) = process_steps es"
| "process_steps (Source f # es) = process_steps es"
| "process_steps (e # es) = e # process_steps es"

fun exit_code :: "sh_event list \<Rightarrow> exit_status option" where
  "exit_code [] = None"
| "exit_code (Exit c # es) = Some c"
| "exit_code (e # es) = exit_code es"

section \<open>Inputs used in the examples\<close>

text \<open>
  A portal state in which polling starts, the same state with the badge already at
  verified, and answers of the status endpoint: one that
  says \<open>verified\<close> in its status text but carries no status code, one that is still
  pending, and a server error.
\<close>

definition polling_state :: portal_state where
  "polling_state =
     \<lparr>artifactId = Some ''a1'', artifactHash = Some ''h1'', complianceStandard = ''p1'',
      analysisProgress = 100, isAnalyzing = False, verificationStatus = Some Pending,
      statusData = None, shouldPoll = True, pollingRef = None\<rparr>"

definition stale_state :: portal_state where
  "stale_state = polling_state\<lparr>verificationStatus := Some Verified\<rparr>"

definition json_reply :: "jsval \<Rightarrow> fetch_outcome" where
  "json_reply v =
     Arrives 100 \<lparr>status = 200, statusText = ''OK'', contentType = Some ''application/json'',
                  bodyText = None, bodyJson = Some v\<rparr>"

definition verified_by_text :: fetch_outcome where
  "verified_by_text = json_reply (JObj [(''status'', JStr ''verified'')])"

definition pending_reply :: fetch_outcome where
  "pending_reply = json_reply (JObj [(''status_code'', JNum 0), (''status'', JStr ''pending'')])"

definition server_error :: fetch_outcome where
  "server_error =
     Arrives 100 \<lparr>status = 500, statusText = ''Internal Server Error'', contentType = None,
                  bodyText = Some ''boom'', bodyJson = None\<rparr>"

text \<open>
  A response that is not ok with a body of 501 characters, a network that takes 45
  seconds over every exchange and one that takes 120 ms, and a report with three
  findings: one without a severity, one rated \<open>High\<close>, and one whose severity is an
  empty array.
\<close>

definition long_body_error :: fetch_outcome where
  "long_body_error =
     Arrives 100 \<lparr>status = 500, statusText = ''Internal Server Error'', contentType = None,
                  bodyText = Some (replicate 501 (CHR ''x'')), bodyJson = None\<rparr>"

definition slow_network :: network where
  "slow_network = (\<lambda>rq. Arrives 45000 \<lparr>status = 200, statusText = ''OK'',
       contentType = Some ''application/json'', bodyText = None, bodyJson = Some JNull\<rparr>)"

definition fast_network :: network where
  "fast_network = (\<lambda>rq. Arrives 120 \<lparr>status = 200, statusText = ''OK'',
       contentType = Some ''application/json'', bodyText = None, bodyJson = Some JNull\<rparr>)"





section \<open>Auxiliary facts\<close>

subsection \<open>Substrings\<close>





subsection \<open>Traces and polling\<close>

lemma timers_append: "timers (xs @ ys) = timers xs @ timers ys"
  by (induction xs rule: timers.induct) simp_all

lemma requests_append: "requests (xs @ ys) = requests xs @ requests ys"
  by (induction xs rule: requests.induct) simp_all

lemma timers_Api: "timers (map Api evs) = []"
  by (induction evs) simp_all

lemma requests_fetch: "requests (map Api (snd (fetch net limit rq))) = [path rq]"
  by (simp add: fetch_def Let_def)

lemma requests_req: "requests (map Api (snd (req net p init))) = [p]"
  by (cases init)
     (auto simp add: req_def Let_def requests_append requests_fetch req_options_def
        split: sum.splits option.splits)

lemma requests_status:
  "requests (map Api (snd (verificationApi_status net h))) = [''/api/v1/verification/status/'' @ h]"
  by (simp add: verificationApi_status_def requests_req)

lemma tick_failed_request:
  assumes "fst (verificationApi_status net h) = Inl e"
  shows "tick net h c a st =
           ((st\<lparr>pollingRef := Some (backoff (Suc a))\<rparr>, Some (Suc a)),
            map Api (snd (verificationApi_status net h)) @ [SetTimer (backoff (Suc a))])"
  using assms by (simp add: tick_def Let_def)

lemma tick_keeps_polling:
  assumes "keeps_polling h c outcome"
  shows "snd (fst (tick (\<lambda>rq. outcome) h c a st)) = Some (Suc a)
         \<and> timers (snd (tick (\<lambda>rq. outcome) h c a st)) = [backoff (Suc a)]
         \<and> requests (snd (tick (\<lambda>rq. outcome) h c a st)) = [''/api/v1/verification/status/'' @ h]"
  using assms
  by (auto simp add: keeps_polling_def tick_def Let_def timers_append timers_Api
        requests_append requests_status split: sum.splits)

lemma poll_run_append:
  "poll_run l (xs @ ys) =
     (fst (poll_run (fst (poll_run l xs)) ys),
      snd (poll_run l xs) @ snd (poll_run (fst (poll_run l xs)) ys))"
  by (induction xs arbitrary: l) (simp_all add: Let_def)

lemma poll_pair:
  assumes "phase l = InFlight" and "keeps_polling (hash l) (captured l) outcome"
  shows "phase (fst (poll_run l [Reply outcome, TimerFires])) = InFlight
       \<and> attempts (fst (poll_run l [Reply outcome, TimerFires])) = Suc (attempts l)
       \<and> hash (fst (poll_run l [Reply outcome, TimerFires])) = hash l
       \<and> captured (fst (poll_run l [Reply outcome, TimerFires])) = captured l
       \<and> timers (snd (poll_run l [Reply outcome, TimerFires])) = [backoff (Suc (attempts l))]
       \<and> requests (snd (poll_run l [Reply outcome, TimerFires]))
           = [''/api/v1/verification/status/'' @ hash l]"
  using assms tick_keeps_polling [OF assms(2), of "attempts l" "view l"]
  by (simp add: Let_def)

lemma poll_answered:
  assumes "phase l = InFlight" and "list_all (keeps_polling (hash l) (captured l)) os"
  shows "phase (fst (poll_run l (answered os))) = InFlight
       \<and> attempts (fst (poll_run l (answered os))) = attempts l + length os
       \<and> timers (snd (poll_run l (answered os)))
           = map backoff [Suc (attempts l) ..< Suc (attempts l + length os)]
       \<and> requests (snd (poll_run l (answered os)))
           = replicate (length os) (''/api/v1/verification/status/'' @ hash l)"
  using assms
proof (induction os arbitrary: l)
  case Nil
  then show ?case by (simp add: answered_def)
next
  case (Cons outcome os)
  let ?l1 = "fst (poll_run l [Reply outcome, TimerFires])"
  have k: "keeps_polling (hash l) (captured l) outcome"
    and ks: "list_all (keeps_polling (hash l) (captured l)) os"
    using Cons.prems(2) by simp_all
  note p = poll_pair [OF Cons.prems(1) k]
  have ih: "phase (fst (poll_run ?l1 (answered os))) = InFlight
       \<and> attempts (fst (poll_run ?l1 (answered os))) = attempts ?l1 + length os
       \<and> timers (snd (poll_run ?l1 (answered os)))
           = map backoff [Suc (attempts ?l1) ..< Suc (attempts ?l1 + length os)]
       \<and> requests (snd (poll_run ?l1 (answered os)))
           = replicate (length os) (''/api/v1/verification/status/'' @ hash ?l1)"
    using Cons.IH [of ?l1] p ks by simp
  have split: "answered (outcome # os) = [Reply outcome, TimerFires] @ answered os"
    by (simp add: answered_def)
  have up: "[Suc (attempts l) ..< Suc (attempts l + length (outcome # os))]
      = Suc (attempts l) # [Suc (Suc (attempts l)) ..< Suc (Suc (attempts l) + length os)]"
    by (simp add: upt_rec)
  show ?case
    unfolding split poll_run_append up
    using p ih by (simp add: timers_append requests_append)
qed

lemmas api_defs = verificationApi_status_def req_def req_options_def fetch_def ok_def
  text_or_empty_def

lemma status_json_reply:
  "fst (verificationApi_status (\<lambda>rq. json_reply v) h) = Inr (PJson v)"
  by (simp add: api_defs json_reply_def Let_def)

lemma status_server_error:
  "fst (verificationApi_status (\<lambda>rq. server_error) h)
     = Inl (HttpError ''500 Internal Server Error: boom'')"
  by (simp add: api_defs server_error_def error_message_def string_of_nat.simps
        digit_char_def Let_def)

lemma status_offline:
  "fst (verificationApi_status (\<lambda>rq. Fails 30 ''offline'') h) = Inl (NetworkError ''offline'')"
  by (simp add: api_defs Let_def)

lemma code_verified_by_text:
  "status_code_of (PJson (JObj [(''status'', JStr ''verified'')])) = None"
  by (simp add: status_code_of_def field_def)

lemma normalize_verified_by_text:
  "normalize_status (PJson (JObj [(''status'', JStr ''verified'')])) = Verified"
  by (simp add: normalize_status_def code_verified_by_text status_text_of_def field_def
        str_or_empty_def toLowerCase_def lower_char_def)

lemma code_pending:
  "status_code_of (PJson (JObj [(''status_code'', JNum 0), (''status'', JStr ''pending'')])) = Some 0"
  by (simp add: status_code_of_def field_def)

lemma tick_verified_by_text:
  "fst (tick (\<lambda>rq. verified_by_text) h (Some Pending) a st)
     = (st\<lparr>statusData := Some (PJson (JObj [(''status'', JStr ''verified'')])),
           verificationStatus := Some Verified,
           pollingRef := Some (backoff (Suc a))\<rparr>, Some (Suc a))"
  using status_json_reply [of "JObj [(''status'', JStr ''verified'')]" h]
  by (simp add: tick_def verified_by_text_def Let_def is_terminal_def code_verified_by_text
        normalize_verified_by_text)

lemma keeps_verified_by_text: "keeps_polling h (Some Pending) verified_by_text"
  by (simp add: keeps_polling_def verified_by_text_def status_json_reply is_terminal_def
        code_verified_by_text)

lemma keeps_pending: "keeps_polling h (Some Pending) pending_reply"
  by (simp add: keeps_polling_def pending_reply_def status_json_reply is_terminal_def code_pending)

lemma keeps_server_error: "keeps_polling h c server_error"
  by (simp add: keeps_polling_def status_server_error)

lemma keeps_offline: "keeps_polling h c (Fails 30 ''offline'')"
  by (simp add: keeps_polling_def status_offline)

lemma poll_reply_keeps:
  assumes "phase l = InFlight" and "keeps_polling (hash l) (captured l) outcome"
  shows "fst (poll_step l (Reply outcome))
           = l\<lparr>phase := Armed, attempts := Suc (attempts l),
                view := fst (fst (tick (\<lambda>rq. outcome) (hash l) (captured l) (attempts l) (view l)))\<rparr>
       \<and> timers (snd (poll_step l (Reply outcome))) = [backoff (Suc (attempts l))]
       \<and> requests (snd (poll_step l (Reply outcome))) = [''/api/v1/verification/status/'' @ hash l]"
  using assms tick_keeps_polling [OF assms(2), of "attempts l" "view l"]
  by (simp add: Let_def)

lemma non_terminal_answer_keeps_polling:
  assumes "c \<noteq> Some Verified" and "c \<noteq> Some Failed"
    and "\<forall>s. fst (verificationApi_status (\<lambda>rq. outcome) h) = Inr s
           \<longrightarrow> normalize_status s = Pending"
  shows "keeps_polling h c outcome"
proof (cases "fst (verificationApi_status (\<lambda>rq. outcome) h)")
  case (Inl e)
  then show ?thesis by (simp add: keeps_polling_def)
next
  case (Inr s)
  then have "normalize_status s = Pending" using assms(3) by blast
  then have "\<not> is_terminal c s"
    using assms(1,2)
    by (auto simp add: is_terminal_def normalize_status_def Let_def split: if_splits)
  then show ?thesis using Inr by (simp add: keeps_polling_def)
qed

lemma terminal_code_stops_polling:
  assumes "fst (verificationApi_status net h) = Inr s"
    and "status_code_of s = Some 1 \<or> status_code_of s = Some 2"
  shows "snd (fst (tick net h c a st)) = None"
    and "timers (snd (tick net h c a st)) = []"
    and "\<not> shouldPoll (fst (fst (tick net h c a st)))"
    and "pollingRef (fst (fst (tick net h c a st))) = None"
  using assms
  by (auto simp add: tick_def Let_def is_terminal_def timers_append timers_Api)

lemma start_polling_state:
  "fst (startPolling polling_state)
     = \<lparr>phase = InFlight, attempts = 0, hash = ''h1'', captured = Some Pending,
        view = polling_state\<rparr>"
  by (simp add: startPolling_def polling_state_def)

subsection \<open>API client and export\<close>

lemma string_of_nat_500: "string_of_nat 500 = ''500''"
  by (simp add: string_of_nat.simps digit_char_def)

lemma fetch_shape:
  "snd (fetch net limit rq)
     = (if limit \<le> latency (net rq) then [Fetch rq, Abort] else [Fetch rq])"
  by (simp add: fetch_def latency_def Let_def)

lemma fetch_abort:
  "limit \<le> latency (net rq) \<Longrightarrow> fsignal rq = ControllerSignal
     \<Longrightarrow> fst (fetch net limit rq) = Inl AbortError"
  by (simp add: fetch_def latency_def Let_def)

lemma timer_events_append: "timer_events (xs @ ys) = timer_events xs @ timer_events ys"
  by (induction xs rule: timer_events.induct) simp_all

lemma fetched_append: "fetched (xs @ ys) = fetched xs @ fetched ys"
  by (induction xs rule: fetched.induct) simp_all

lemma req_timer:
  assumes "fsignal (req_options p init) = ControllerSignal"
  shows "hd (snd (req net p init)) = SetTimeout 20000"
    and "last (snd (req net p init)) = ClearTimeout"
    and "timer_events (snd (req net p init))
           = (if 20000 \<le> latency (net (req_options p init))
              then [SetTimeout 20000, Abort, ClearTimeout]
              else [SetTimeout 20000, ClearTimeout])"
    and "map fsignal (fetched (snd (req net p init))) = [ControllerSignal]"
    and "20000 \<le> latency (net (req_options p init)) \<Longrightarrow> fst (req net p init) = Inl AbortError"
proof -
  show "hd (snd (req net p init)) = SetTimeout 20000"
    by (simp add: req_def Let_def)
  show "last (snd (req net p init)) = ClearTimeout"
    by (simp add: req_def Let_def)
  show "timer_events (snd (req net p init))
           = (if 20000 \<le> latency (net (req_options p init))
              then [SetTimeout 20000, Abort, ClearTimeout]
              else [SetTimeout 20000, ClearTimeout])"
    by (auto simp add: req_def Let_def timer_events_append fetch_shape
          split: sum.splits option.splits)
  show "map fsignal (fetched (snd (req net p init))) = [ControllerSignal]"
    using assms
    by (auto simp add: req_def Let_def fetched_append fetch_shape split: sum.splits option.splits)
  show "20000 \<le> latency (net (req_options p init)) \<Longrightarrow> fst (req net p init) = Inl AbortError"
    using assms by (simp add: req_def Let_def fetch_abort)
qed

lemma reqForm_timer:
  assumes "fsignal (reqForm_options p form init) = ControllerSignal"
  shows "hd (snd (reqForm net p form init)) = SetTimeout 30000"
    and "last (snd (reqForm net p form init)) = ClearTimeout"
    and "timer_events (snd (reqForm net p form init))
           = (if 30000 \<le> latency (net (reqForm_options p form init))
              then [SetTimeout 30000, Abort, ClearTimeout]
              else [SetTimeout 30000, ClearTimeout])"
    and "map fsignal (fetched (snd (reqForm net p form init))) = [ControllerSignal]"
    and "30000 \<le> latency (net (reqForm_options p form init))
           \<Longrightarrow> fst (reqForm net p form init) = Inl AbortError"
proof -
  show "hd (snd (reqForm net p form init)) = SetTimeout 30000"
    by (simp add: reqForm_def Let_def)
  show "last (snd (reqForm net p form init)) = ClearTimeout"
    by (simp add: reqForm_def Let_def)
  show "timer_events (snd (reqForm net p form init))
           = (if 30000 \<le> latency (net (reqForm_options p form init))
              then [SetTimeout 30000, Abort, ClearTimeout]
              else [SetTimeout 30000, ClearTimeout])"
    by (auto simp add: reqForm_def Let_def timer_events_append fetch_shape
          split: sum.splits option.splits)
  show "map fsignal (fetched (snd (reqForm net p form init))) = [ControllerSignal]"
    using assms
    by (auto simp add: reqForm_def Let_def fetched_append fetch_shape
          split: sum.splits option.splits)
  show "30000 \<le> latency (net (reqForm_options p form init))
           \<Longrightarrow> fst (reqForm net p form init) = Inl AbortError"
    using assms by (simp add: reqForm_def Let_def fetch_abort)
qed

lemma own_signal_get: "fsignal (req_options p None) = ControllerSignal"
  by (simp add: req_options_def)

lemma own_signal_post: "fsignal (req_options p (Some (post_json b))) = ControllerSignal"
  by (simp add: req_options_def post_json_def)

lemma own_signal_form: "fsignal (reqForm_options p form None) = ControllerSignal"
  by (simp add: reqForm_options_def)

lemmas operation_defs = auditorApi_status_def auditorApi_reports_def auditorApi_attest_def
  auditorApi_listAttestations_def controlsApi_families_def controlsApi_list_def
  controlsApi_recommend_def ipfsApi_resolve_def artifactsApi_upload_def artifactsApi_list_def
  artifactsApi_profiles_def verificationApi_submit_def verificationApi_status_def
  verificationApi_reports_def

lemma perform_json:
  assumes "\<not> is_multipart c"
  shows "\<exists>p init. perform net c = req net p init
           \<and> fsignal (req_options p init) = ControllerSignal"
  using assms
  by (cases c; simp add: operation_defs; metis own_signal_get own_signal_post)

lemma perform_multipart:
  assumes "is_multipart c"
  shows "\<exists>p form. perform net c = reqForm net p form None"
  using assms by (cases c; simp add: operation_defs; blast)


lemma string_of_nat_nonempty: "string_of_nat n \<noteq> []"
  by (subst string_of_nat.simps) simp











lemma tick_stale_status:
  assumes "fst (verificationApi_status net h) = Inr s"
  shows "snd (fst (tick net h (Some Verified) a st)) = None"
    and "timers (snd (tick net h (Some Verified) a st)) = []"
    and "requests (snd (tick net h (Some Verified) a st)) = [''/api/v1/verification/status/'' @ h]"
    and "\<not> shouldPoll (fst (fst (tick net h (Some Verified) a st)))"
    and "verificationStatus (fst (fst (tick net h (Some Verified) a st))) = Some (normalize_status s)"
  using assms
  by (auto simp add: tick_def Let_def is_terminal_def timers_append timers_Api
        requests_append requests_status)

lemma poll_idle:
  assumes "phase l = Idle"
  shows "poll_run l (answered os) = (l, [])"
  using assms by (induction os) (simp_all add: answered_def Let_def)

lemma poll_reply_stale:
  assumes "phase l = InFlight" and "captured l = Some Verified"
    and "fst (verificationApi_status (\<lambda>rq. outcome) (hash l)) = Inr s"
  shows "phase (fst (poll_step l (Reply outcome))) = Idle"
    and "timers (snd (poll_step l (Reply outcome))) = []"
    and "requests (snd (poll_step l (Reply outcome))) = [''/api/v1/verification/status/'' @ hash l]"
    and "\<not> shouldPoll (view (fst (poll_step l (Reply outcome))))"
  using assms tick_stale_status [OF assms(3), of "attempts l" "view l"]
  by (simp_all add: Let_def)

lemma start_stale_state:
  "fst (startPolling stale_state)
     = \<lparr>phase = InFlight, attempts = 0, hash = ''h1'', captured = Some Verified,
        view = stale_state\<rparr>"
  by (simp add: startPolling_def stale_state_def polling_state_def)

text \<open>
  The backoff schedule of a run in which no poll ends polling: the first \<open>tick\<close> is called
  by the effect itself, the \<open>n\<close>-th poll arms 3000 ms for \<open>n \<le> 3\<close> and 8000 ms after,
  and each timer that fires makes one more status request.
\<close>

lemma polling_backoff_schedule:
  assumes "artifactHash st = Some h" and "h \<noteq> []" and "shouldPoll st"
    and "\<forall>outcome \<in> set os. keeps_polling h (verificationStatus st) outcome"
  shows "phase (fst (startPolling st)) = InFlight
       \<and> timers (snd (startPolling st)) = []
       \<and> timers (snd (poll_run (fst (startPolling st)) (answered os)))
           = map (\<lambda>n. if n \<le> 3 then 3000 else 8000) [1 ..< Suc (length os)]
       \<and> requests (snd (poll_run (fst (startPolling st)) (answered os)))
           = replicate (length os) (''/api/v1/verification/status/'' @ h)
       \<and> phase (fst (poll_run (fst (startPolling st)) (answered os))) = InFlight"
proof -
  let ?l = "fst (startPolling st)"
  have start: "phase ?l = InFlight" "attempts ?l = 0" "hash ?l = h"
    "captured ?l = verificationStatus st"
    using assms(1-3) by (simp_all add: startPolling_def)
  have none: "timers (snd (startPolling st)) = []"
    using assms(1-3) by (simp add: startPolling_def)
  have all: "list_all (keeps_polling (hash ?l) (captured ?l)) os"
    using assms(4) start by (simp add: list_all_iff)
  have bk: "map backoff [Suc 0 ..< Suc (length os)]
      = map (\<lambda>n. if n \<le> 3 then 3000 else 8000) [1 ..< Suc (length os)]"
    by (simp add: backoff_def)
  show ?thesis
    using poll_answered [OF start(1) all] start none bk by simp
qed

lemma polling_backoff_schedule_example:
  "timers (snd (poll_run (fst (startPolling polling_state))
       (answered [pending_reply, server_error, pending_reply, Fails 30 ''offline'', pending_reply])))
     = [3000, 3000, 3000, 8000, 8000]
   \<and> requests (snd (poll_run (fst (startPolling polling_state))
       (answered [pending_reply, server_error, pending_reply, Fails 30 ''offline'', pending_reply])))
     = [''/api/v1/verification/status/h1'', ''/api/v1/verification/status/h1'',
        ''/api/v1/verification/status/h1'', ''/api/v1/verification/status/h1'',
        ''/api/v1/verification/status/h1'']
   \<and> phase (fst (startPolling polling_state)) = InFlight"
proof -
  have h1: "artifactHash polling_state = Some ''h1''" and h2: "''h1'' \<noteq> []"
    and h3: "shouldPoll polling_state"
    by (simp_all add: polling_state_def)
  have h4: "\<forall>outcome \<in> set [pending_reply, server_error, pending_reply, Fails 30 ''offline'', pending_reply].
      keeps_polling ''h1'' (verificationStatus polling_state) outcome"
    by (simp add: polling_state_def keeps_pending keeps_server_error keeps_offline)
  have up: "[1 ..< Suc 5] = [1, 2, 3, 4, 5::nat]"
    by (simp add: upt_rec)
  show ?thesis
    using polling_backoff_schedule [OF h1 h2 h3 h4] up
    by (simp add: numeral_eq_Suc)
qed







subsection \<open>Wallet hook\<close>

lemma restore_keeps_active_first:
  assumes "active_is_first s"
  shows "active_is_first (fst (reconnectSession c r s))"
proof (cases r)
  case (Resolved newAccounts)
  then show ?thesis
    using assms
    by (cases newAccounts; cases c; simp add: reconnectSession_def;
        simp add: active_is_first_def)
next
  case (Rejected e)
  then show ?thesis using assms by (simp add: reconnectSession_def)
qed

lemma disconnect_keeps_active_first:
  assumes "active_is_first s"
  shows "active_is_first (fst (handleDisconnect r s))"
  using assms
  by (cases r; simp add: handleDisconnect_def; simp add: active_is_first_def)

lemma disconnect_clears:
  "fst (handleDisconnect (Resolved u) s) = \<lparr>accounts = [], activeAccount = None\<rparr>"
  by (simp add: handleDisconnect_def)

lemma connect_keeps_active_first:
  assumes "active_is_first s" and "r \<noteq> Resolved [] \<or> activeAccount s = None"
  shows "active_is_first (fst (handleConnect r s))"
proof (cases r)
  case (Resolved newAccounts)
  then show ?thesis
    using assms
    by (cases newAccounts; simp add: handleConnect_def; simp add: active_is_first_def)
next
  case (Rejected e)
  then show ?thesis using assms by (simp add: handleConnect_def)
qed

lemma connect_empty_when_disconnected:
  assumes "activeAccount s = None"
  shows "\<not> isConnected (fst (handleConnect (Resolved []) s))"
  using assms by (simp add: handleConnect_def isConnected_def)

section \<open>Wallet hook: results\<close>

text \<open>
  C6. \<open>signTransactions\<close>: when no wallet session is connected it fails with the
  "Wallet not connected" error and makes no SDK call at all; when a session is connected
  it makes exactly one signing call whose argument is the one-element list of groups
  \<open>[transactions]\<close> (also for a single transaction), and returns that call's outcome.
\<close>

theorem signTransactions_single_group:
  "(\<not> isConnected s \<longrightarrow>
      signTransactions sdkSign s txs = (Inl (WalletError ''Wallet not connected''), []))
   \<and> (isConnected s \<longrightarrow>
      snd (signTransactions sdkSign s txs) = [SdkSignTransaction [txs]]
      \<and> fst (signTransactions sdkSign s txs) =
          (case sdkSign [txs] of Rejected e \<Rightarrow> Inl (SdkFailure e) | Resolved g \<Rightarrow> Inr g))"
  by (simp add: signTransactions_def)

theorem signTransactions_single_group_witness:
  "\<not> isConnected initial_wallet
   \<and> signTransactions (\<lambda>g. Resolved (length g)) initial_wallet [''tx1'']
       = (Inl (WalletError ''Wallet not connected''), [])
   \<and> isConnected \<lparr>accounts = [''ADDR''], activeAccount = Some ''ADDR''\<rparr>
   \<and> snd (signTransactions (\<lambda>g. Resolved (length g))
        \<lparr>accounts = [''ADDR''], activeAccount = Some ''ADDR''\<rparr> [''tx1''])
       = [SdkSignTransaction [[''tx1'']]]
   \<and> fst (signTransactions (\<lambda>g. Resolved (length g))
        \<lparr>accounts = [''ADDR''], activeAccount = Some ''ADDR''\<rparr> [''tx1''])
       = Inr (Suc 0)"
  using signTransactions_single_group
          [of initial_wallet "\<lambda>g. Resolved (length g)" "[''tx1'']"]
        signTransactions_single_group
          [of "\<lparr>accounts = [''ADDR''], activeAccount = Some ''ADDR''\<rparr>"
              "\<lambda>g. Resolved (length g)" "[''tx1'']"]
  by (simp add: isConnected_def initial_wallet_def)

text \<open>
  C10 (the run that breaks the invariant). Starting from the initial state, a connect
  that resolves with one account followed by a connect that resolves with the empty list
  leaves the accounts list empty while the active account is still the old address: the
  session still counts as connected and the active account is not the first element of
  the accounts list.
\<close>

theorem connect_empty_after_connect_keeps_active:
  "wallet_run [Connect (Resolved [''ADDR'']), Connect (Resolved [])]
     = \<lparr>accounts = [], activeAccount = Some ''ADDR''\<rparr>
   \<and> isConnected (wallet_run [Connect (Resolved [''ADDR'']), Connect (Resolved [])])
   \<and> \<not> active_is_first (wallet_run [Connect (Resolved [''ADDR'']), Connect (Resolved [])])"
  by (simp add: wallet_run_def handleConnect_def initial_wallet_def isConnected_def
        active_is_first_def)

section \<open>Company portal: results\<close>

text \<open>
  C1. What \<open>startAnalysis\<close> does with an uploaded artifact id and a selected profile:
  the object \<open>verificationApi\<close> has no property \<open>submitByArtifact\<close>, so the call
  throws before any request is made. The run is marked failed, a failure toast is shown,
  and for every state and network no request is issued and \<open>shouldPoll\<close> is not set.
\<close>

theorem startAnalysis_calls_missing_method:
  "verificationApi ''submitByArtifact'' = None
   \<and> startAnalysis net (st\<lparr>artifactId := Some ''a1'', complianceStandard := ''p1''\<rparr>)
       = (st\<lparr>artifactId := Some ''a1'', complianceStandard := ''p1'', isAnalyzing := False,
             analysisProgress := 0, verificationStatus := Some Failed\<rparr>,
          [Toast ''Verification failed''])
   \<and> fetches (snd (startAnalysis net st)) = []
   \<and> shouldPoll (fst (startAnalysis net st)) = shouldPoll st"
  by (simp add: startAnalysis_def verificationApi_def analysis_failed_def split: option.splits)

text \<open>
  C2. Two runs of the polling loop that go on after the point where it should end.
  In the first the answer says \<open>verified\<close> in its status text and carries no status
  code: the badge becomes verified, but the stop test reads the status captured when the
  effect started, a 3 second timer is armed and a second status request follows. In the
  second the cleanup runs while the first request is in flight: there is no timer to
  clear, the pending answer arms one afterwards, and a second status request follows.
\<close>

theorem text_only_terminal_keeps_polling:
  "requests (snd (poll_run (fst (startPolling polling_state))
       [Reply verified_by_text, TimerFires, Reply verified_by_text]))
     = [''/api/v1/verification/status/h1'', ''/api/v1/verification/status/h1'']
   \<and> timers (snd (poll_run (fst (startPolling polling_state))
       [Reply verified_by_text, TimerFires, Reply verified_by_text])) = [3000, 3000]
   \<and> verificationStatus (view (fst (poll_run (fst (startPolling polling_state))
       [Reply verified_by_text]))) = Some Verified
   \<and> phase (fst (poll_run (fst (startPolling polling_state)) [Reply verified_by_text])) = Armed
   \<and> shouldPoll (view (fst (poll_run (fst (startPolling polling_state))
       [Reply verified_by_text, TimerFires, Reply verified_by_text])))
   \<and> requests (snd (poll_run (fst (startPolling polling_state))
       [Cleanup, Reply pending_reply, TimerFires, Reply pending_reply]))
     = [''/api/v1/verification/status/h1'', ''/api/v1/verification/status/h1'']
   \<and> phase (fst (poll_run (fst (startPolling polling_state))
       [Cleanup, Reply pending_reply, TimerFires, Reply pending_reply])) = Armed"
proof -
  define l0 where "l0 = fst (startPolling polling_state)"
  define l1 where "l1 = fst (poll_step l0 (Reply verified_by_text))"
  define e1 where "e1 = snd (poll_step l0 (Reply verified_by_text))"
  define l2 where "l2 = fst (poll_step l1 TimerFires)"
  define l3 where "l3 = fst (poll_step l2 (Reply verified_by_text))"
  define e3 where "e3 = snd (poll_step l2 (Reply verified_by_text))"
  have s0: "phase l0 = InFlight" "attempts l0 = 0" "hash l0 = ''h1''"
    "captured l0 = Some Pending" "view l0 = polling_state"
    by (simp_all add: l0_def start_polling_state)
  have k0: "keeps_polling (hash l0) (captured l0) verified_by_text"
    by (simp add: s0 keeps_verified_by_text)
  have s1: "l1 = l0\<lparr>phase := Armed, attempts := Suc 0,
        view := fst (fst (tick (\<lambda>rq. verified_by_text) ''h1'' (Some Pending) 0 polling_state))\<rparr>"
      and t1: "timers e1 = [3000]"
      and r1: "requests e1 = [''/api/v1/verification/status/h1'']"
    using poll_reply_keeps [OF s0(1) k0] unfolding l1_def e1_def
    by (simp_all add: s0 backoff_def)
  have s2: "l2 = l1\<lparr>phase := InFlight\<rparr>" and e2: "snd (poll_step l1 TimerFires) = []"
    unfolding l2_def by (simp_all add: s1)
  have p2: "phase l2 = InFlight" "hash l2 = ''h1''" "captured l2 = Some Pending"
    "attempts l2 = Suc 0"
    by (simp_all add: s2 s1 s0)
  have k2: "keeps_polling (hash l2) (captured l2) verified_by_text"
    by (simp add: p2 keeps_verified_by_text)
  have s3: "l3 = l2\<lparr>phase := Armed, attempts := Suc (Suc 0),
        view := fst (fst (tick (\<lambda>rq. verified_by_text) ''h1'' (Some Pending) (Suc 0) (view l2)))\<rparr>"
      and t3: "timers e3 = [3000]"
      and r3: "requests e3 = [''/api/v1/verification/status/h1'']"
    using poll_reply_keeps [OF p2(1) k2] unfolding l3_def e3_def
    by (simp_all add: p2 backoff_def)
  have run3: "poll_run l0 [Reply verified_by_text, TimerFires, Reply verified_by_text]
      = (l3, e1 @ e3)"
    using e2 by (simp add: Let_def l1_def [symmetric] e1_def [symmetric] l2_def [symmetric]
        l3_def [symmetric] e3_def [symmetric] del: poll_step.simps)
  have run1: "poll_run l0 [Reply verified_by_text] = (l1, e1)"
    by (simp add: Let_def l1_def e1_def del: poll_step.simps)
  have c1: "requests (snd (poll_run l0 [Reply verified_by_text, TimerFires, Reply verified_by_text]))
     = [''/api/v1/verification/status/h1'', ''/api/v1/verification/status/h1'']"
    unfolding run3 by (simp add: requests_append r1 r3)
  have c2: "timers (snd (poll_run l0 [Reply verified_by_text, TimerFires, Reply verified_by_text]))
     = [3000, 3000]"
    unfolding run3 by (simp add: timers_append t1 t3)
  have c3: "verificationStatus (view (fst (poll_run l0 [Reply verified_by_text]))) = Some Verified"
    unfolding run1 by (simp add: s1 tick_verified_by_text)
  have c4: "phase (fst (poll_run l0 [Reply verified_by_text])) = Armed"
    unfolding run1 by (simp add: s1)
  have c5: "shouldPoll (view (fst (poll_run l0
       [Reply verified_by_text, TimerFires, Reply verified_by_text])))"
    unfolding run3 by (simp add: s3 s2 s1 tick_verified_by_text polling_state_def)
  define k1 where "k1 = fst (poll_step l0 Cleanup)"
  define m2 where "m2 = fst (poll_step k1 (Reply pending_reply))"
  define f2 where "f2 = snd (poll_step k1 (Reply pending_reply))"
  define m3 where "m3 = fst (poll_step m2 TimerFires)"
  define m4 where "m4 = fst (poll_step m3 (Reply pending_reply))"
  define f4 where "f4 = snd (poll_step m3 (Reply pending_reply))"
  have u1: "phase k1 = InFlight" "hash k1 = ''h1''" "captured k1 = Some Pending"
      and f1: "snd (poll_step l0 Cleanup) = []"
    unfolding k1_def by (simp_all add: s0 polling_state_def)
  have g1: "keeps_polling (hash k1) (captured k1) pending_reply"
    by (simp add: u1 keeps_pending)
  have u2: "phase m2 = Armed" "hash m2 = ''h1''" "captured m2 = Some Pending"
      and q2: "requests f2 = [''/api/v1/verification/status/h1'']"
    using poll_reply_keeps [OF u1(1) g1] unfolding m2_def f2_def
    by (simp_all add: u1)
  have u3: "phase m3 = InFlight" "hash m3 = ''h1''" "captured m3 = Some Pending"
      and f3: "snd (poll_step m2 TimerFires) = []"
    unfolding m3_def by (simp_all add: u2)
  have g3: "keeps_polling (hash m3) (captured m3) pending_reply"
    by (simp add: u3 keeps_pending)
  have u4: "phase m4 = Armed"
      and q4: "requests f4 = [''/api/v1/verification/status/h1'']"
    using poll_reply_keeps [OF u3(1) g3] unfolding m4_def f4_def
    by (simp_all add: u3)
  have run4: "poll_run l0 [Cleanup, Reply pending_reply, TimerFires, Reply pending_reply]
      = (m4, f2 @ f4)"
    using f1 f3 by (simp add: Let_def k1_def [symmetric] m2_def [symmetric] f2_def [symmetric]
        m3_def [symmetric] m4_def [symmetric] f4_def [symmetric] del: poll_step.simps)
  have c6: "requests (snd (poll_run l0 [Cleanup, Reply pending_reply, TimerFires, Reply pending_reply]))
     = [''/api/v1/verification/status/h1'', ''/api/v1/verification/status/h1'']"
    unfolding run4 by (simp add: requests_append q2 q4)
  have c7: "phase (fst (poll_run l0 [Cleanup, Reply pending_reply, TimerFires, Reply pending_reply]))
     = Armed"
    unfolding run4 by (simp add: u4)
  show ?thesis
    using c1 c2 c3 c4 c5 c6 c7 unfolding l0_def by blast
qed

text \<open>
  C3. A run of the polling loop that observes no terminal status and yet makes a single
  request. The effect starts while the badge stands at verified, with \<open>shouldPoll\<close> set;
  every answer is pending with status code 0. The stop test of \<open>tick\<close> reads the badge
  the closure captured, so the first answer ends polling: one status request, no timer
  armed, \<open>shouldPoll\<close> cleared, where the schedule asks for three more requests 3 seconds
  apart and then one every 8 seconds. Such a start is what the effect sees when the
  artifact hash changes after an answer that said verified in its text only.
\<close>

theorem stale_status_ends_polling_early:
  "status_code_of (PJson (JObj [(''status_code'', JNum 0), (''status'', JStr ''pending'')])) = Some 0
   \<and> normalize_status (PJson (JObj [(''status_code'', JNum 0), (''status'', JStr ''pending'')]))
       = Pending
   \<and> requests (snd (poll_run (fst (startPolling stale_state))
         (answered [pending_reply, pending_reply, pending_reply, pending_reply])))
       = [''/api/v1/verification/status/h1'']
   \<and> timers (snd (poll_run (fst (startPolling stale_state))
         (answered [pending_reply, pending_reply, pending_reply, pending_reply]))) = []
   \<and> phase (fst (poll_run (fst (startPolling stale_state))
         (answered [pending_reply, pending_reply, pending_reply, pending_reply]))) = Idle
   \<and> shouldPoll (view (fst (poll_run (fst (startPolling stale_state))
         (answered [pending_reply, pending_reply, pending_reply, pending_reply])))) = False
   \<and> captured (fst (startPolling
         ((view (fst (poll_run (fst (startPolling polling_state)) [Reply verified_by_text, Cleanup])))
            \<lparr>artifactId := Some ''a2'', artifactHash := Some ''h2''\<rparr>))) = Some Verified
   \<and> phase (fst (startPolling
         ((view (fst (poll_run (fst (startPolling polling_state)) [Reply verified_by_text, Cleanup])))
            \<lparr>artifactId := Some ''a2'', artifactHash := Some ''h2''\<rparr>))) = InFlight"
proof -
  define l0 where "l0 = fst (startPolling stale_state)"
  define l1 where "l1 = fst (poll_step l0 (Reply pending_reply))"
  define e1 where "e1 = snd (poll_step l0 (Reply pending_reply))"
  define l2 where "l2 = fst (poll_step l1 TimerFires)"
  have s0: "phase l0 = InFlight" "captured l0 = Some Verified" "hash l0 = ''h1''"
    by (simp_all add: l0_def start_stale_state)
  have a0: "fst (verificationApi_status (\<lambda>rq. pending_reply) (hash l0))
      = Inr (PJson (JObj [(''status_code'', JNum 0), (''status'', JStr ''pending'')]))"
    by (simp add: pending_reply_def status_json_reply)
  have s1: "phase l1 = Idle" "timers e1 = []"
    "requests e1 = [''/api/v1/verification/status/h1'']" "\<not> shouldPoll (view l1)"
    using poll_reply_stale [OF s0(1) s0(2) a0] unfolding l1_def e1_def
    by (simp_all add: s0)
  have s2: "l2 = l1" "snd (poll_step l1 TimerFires) = []"
    unfolding l2_def by (simp_all add: s1)
  have parts: "answered [pending_reply, pending_reply, pending_reply, pending_reply]
      = [Reply pending_reply, TimerFires] @ answered [pending_reply, pending_reply, pending_reply]"
    by (simp add: answered_def)
  have head: "poll_run l0 [Reply pending_reply, TimerFires] = (l1, e1)"
    using s2 by (simp add: Let_def l1_def [symmetric] e1_def [symmetric] l2_def [symmetric]
        del: poll_step.simps)
  have run: "poll_run l0 (answered [pending_reply, pending_reply, pending_reply, pending_reply])
      = (l1, e1)"
    unfolding parts poll_run_append head
    by (simp add: poll_idle [OF s1(1)])
  have c1: "status_code_of (PJson (JObj [(''status_code'', JNum 0), (''status'', JStr ''pending'')]))
      = Some 0"
    by (rule code_pending)
  have c2: "normalize_status (PJson (JObj [(''status_code'', JNum 0), (''status'', JStr ''pending'')]))
      = Pending"
    by (simp add: normalize_status_def code_pending status_text_of_def field_def
        str_or_empty_def toLowerCase_def lower_char_def)
  define m0 where "m0 = fst (startPolling polling_state)"
  define m1 where "m1 = fst (poll_step m0 (Reply verified_by_text))"
  define m2 where "m2 = fst (poll_step m1 Cleanup)"
  have t0: "phase m0 = InFlight" "attempts m0 = 0" "hash m0 = ''h1''"
    "captured m0 = Some Pending" "view m0 = polling_state"
    by (simp_all add: m0_def start_polling_state)
  have k0: "keeps_polling (hash m0) (captured m0) verified_by_text"
    by (simp add: t0 keeps_verified_by_text)
  have t1: "view m1 = fst (fst (tick (\<lambda>rq. verified_by_text) ''h1'' (Some Pending) 0 polling_state))"
    using poll_reply_keeps [OF t0(1) k0] unfolding m1_def by (simp add: t0)
  have v1: "verificationStatus (view m1) = Some Verified" "shouldPoll (view m1)"
    by (simp_all add: t1 tick_verified_by_text polling_state_def)
  have t2: "verificationStatus (view m2) = Some Verified" "shouldPoll (view m2)"
    unfolding m2_def using v1 by simp_all
  have earlier: "poll_run m0 [Reply verified_by_text, Cleanup] = (m2, snd (poll_step m0 (Reply verified_by_text)) @ snd (poll_step m1 Cleanup))"
    by (simp add: Let_def m1_def [symmetric] m2_def [symmetric] del: poll_step.simps)
  have c7: "captured (fst (startPolling ((view m2)\<lparr>artifactId := Some ''a2'', artifactHash := Some ''h2''\<rparr>)))
      = Some Verified"
    and c8: "phase (fst (startPolling ((view m2)\<lparr>artifactId := Some ''a2'', artifactHash := Some ''h2''\<rparr>)))
      = InFlight"
    using t2 by (simp_all add: startPolling_def)
  show ?thesis
    using c1 c2 s1 c7 c8 unfolding l0_def [symmetric] m0_def [symmetric] run earlier by simp
qed

text \<open>
  C9. A poll whose request fails (a response that is not ok, a network failure, an abort
  by the timeout, a body that cannot be read) changes no state cell except the timer
  handle: status data, displayed status, \<open>shouldPoll\<close> and \<open>isAnalyzing\<close> stay as they
  were, the attempt counter goes up by one, and the next poll is scheduled with the delay
  of the backoff schedule for the new counter.
\<close>

theorem failed_poll_is_swallowed:
  assumes "fst (verificationApi_status net h) = Inl e"
  shows "fst (fst (tick net h c a st)) = st\<lparr>pollingRef := Some (if Suc a \<le> 3 then 3000 else 8000)\<rparr>
       \<and> snd (fst (tick net h c a st)) = Some (Suc a)
       \<and> timers (snd (tick net h c a st)) = [if Suc a \<le> 3 then 3000 else 8000]
       \<and> statusData (fst (fst (tick net h c a st))) = statusData st
       \<and> verificationStatus (fst (fst (tick net h c a st))) = verificationStatus st
       \<and> shouldPoll (fst (fst (tick net h c a st))) = shouldPoll st
       \<and> isAnalyzing (fst (fst (tick net h c a st))) = isAnalyzing st"
  using tick_failed_request [OF assms, of c a st]
  by (simp add: backoff_def timers_append timers_Api)

theorem failed_poll_is_swallowed_witness:
  "fst (verificationApi_status (\<lambda>rq. server_error) ''h1'')
     = Inl (HttpError ''500 Internal Server Error: boom'')
   \<and> fst (tick (\<lambda>rq. server_error) ''h1'' (Some Pending) 3 polling_state)
       = (polling_state\<lparr>pollingRef := Some 8000\<rparr>, Some 4)
   \<and> timers (snd (tick (\<lambda>rq. server_error) ''h1'' (Some Pending) 3 polling_state)) = [8000]
   \<and> verificationStatus (fst (fst (tick (\<lambda>rq. server_error) ''h1'' (Some Pending) 3 polling_state)))
       = Some Pending"
proof -
  have h: "fst (verificationApi_status (\<lambda>rq. server_error) ''h1'')
     = Inl (HttpError ''500 Internal Server Error: boom'')"
    by (rule status_server_error)
  have v: "verificationStatus polling_state = Some Pending"
    by (simp add: polling_state_def)
  show ?thesis
    using failed_poll_is_swallowed [OF h, of "Some Pending" 3 polling_state] h v
    by (simp add: prod_eq_iff)
qed

section \<open>API client: results\<close>

text \<open>
  C4 (as amended). When the fetch of \<open>req\<close> or of \<open>reqForm\<close> resolves with a response
  whose status is outside 200 to 299, the call throws an error whose message is the
  status code, a blank, the status text and, when the body is not empty, a colon and the
  whole body; the error trace logged before the throw carries the status code, the status
  text and the first 500 characters of the body at most.
\<close>

theorem non_ok_error_carries_whole_body:
  "(fst (fetch net 20000 (req_options p init)) = Inr res \<and> \<not> ok res \<longrightarrow>
      fst (req net p init)
        = Inl (HttpError (string_of_nat (status res) @ '' '' @ statusText res
                 @ (if text_or_empty res = [] then [] else '': '' @ text_or_empty res)))
      \<and> LogResponseError (status res) (statusText res) (take 500 (text_or_empty res))
           \<in> set (snd (req net p init))
      \<and> length (take 500 (text_or_empty res)) \<le> 500)
   \<and> (fst (fetch net 30000 (reqForm_options q form init')) = Inr res' \<and> \<not> ok res' \<longrightarrow>
      fst (reqForm net q form init')
        = Inl (HttpError (string_of_nat (status res') @ '' '' @ statusText res'
                 @ (if text_or_empty res' = [] then [] else '': '' @ text_or_empty res')))
      \<and> LogResponseError (status res') (statusText res') (take 500 (text_or_empty res'))
           \<in> set (snd (reqForm net q form init'))
      \<and> length (take 500 (text_or_empty res')) \<le> 500)"
  by (simp add: req_def reqForm_def Let_def error_message_def)

theorem non_ok_error_carries_whole_body_witness:
  "fst (req (\<lambda>rq. long_body_error) ''/api/v1/artifacts/'' None)
     = Inl (HttpError (''500 Internal Server Error: '' @ replicate 501 (CHR ''x'')))
   \<and> LogResponseError 500 ''Internal Server Error'' (replicate 500 (CHR ''x''))
       \<in> set (snd (req (\<lambda>rq. long_body_error) ''/api/v1/artifacts/'' None))
   \<and> fst (reqForm (\<lambda>rq. long_body_error) ''/api/v1/artifacts/upload'' [] None)
     = Inl (HttpError (''500 Internal Server Error: '' @ replicate 501 (CHR ''x'')))
   \<and> LogResponseError 500 ''Internal Server Error'' (replicate 500 (CHR ''x''))
       \<in> set (snd (reqForm (\<lambda>rq. long_body_error) ''/api/v1/artifacts/upload'' [] None))"
proof -
  let ?res = "\<lparr>status = 500, statusText = ''Internal Server Error'', contentType = None,
                  bodyText = Some (replicate 501 (CHR ''x'')), bodyJson = None\<rparr>"
  have f1: "fst (fetch (\<lambda>rq. long_body_error) 20000 (req_options ''/api/v1/artifacts/'' None)) = Inr ?res"
    by (simp add: fetch_def long_body_error_def Let_def)
  have f2: "fst (fetch (\<lambda>rq. long_body_error) 30000
               (reqForm_options ''/api/v1/artifacts/upload'' [] None)) = Inr ?res"
    by (simp add: fetch_def long_body_error_def Let_def)
  have n: "\<not> ok ?res" by (simp add: ok_def)
  have t: "text_or_empty ?res = replicate 501 (CHR ''x'')" by (simp add: text_or_empty_def)
  show ?thesis
    using non_ok_error_carries_whole_body
            [where net = "\<lambda>rq. long_body_error" and p = "''/api/v1/artifacts/''"
               and init = None and res = ?res and q = "''/api/v1/artifacts/upload''"
               and form = "[]" and init' = None and res' = ?res]
          f1 f2 n t
    by (simp add: string_of_nat_500)
qed

text \<open>
  C4 (counterexample). A response with status 500 and a body of 501 characters: the
  error thrown by \<open>req\<close>, and by \<open>reqForm\<close>, carries all 501 characters of the body.
\<close>

theorem thrown_error_body_not_truncated:
  "fst (req (\<lambda>rq. long_body_error) ''/api/v1/artifacts/'' None)
     = Inl (HttpError (''500 Internal Server Error: '' @ replicate 501 (CHR ''x'')))
   \<and> fst (reqForm (\<lambda>rq. long_body_error) ''/api/v1/artifacts/upload'' [] None)
     = Inl (HttpError (''500 Internal Server Error: '' @ replicate 501 (CHR ''x'')))
   \<and> length (replicate 501 (CHR ''x'')) = 501"
  by (simp add: req_def reqForm_def fetch_def long_body_error_def ok_def error_message_def
        text_or_empty_def string_of_nat_500 Let_def)

text \<open>
  C5. Every operation the client exports sets its timer first, 30000 ms for the two
  multipart operations and 20000 ms for all others, makes one fetch that listens to the
  signal of the controller the timer aborts, and clears the timer last, whatever the
  outcome. When the network takes as long as the limit or longer the timer fires, the
  call fails with the abort error and the timer is still cleared; when the network is
  faster the timer never fires.
\<close>

theorem api_calls_have_hard_timeout:
  "hd (snd (perform net c)) = SetTimeout (if is_multipart c then 30000 else 20000)
   \<and> last (snd (perform net c)) = ClearTimeout
   \<and> (timer_events (snd (perform net c))
         = [SetTimeout (if is_multipart c then 30000 else 20000), ClearTimeout]
       \<or> timer_events (snd (perform net c))
         = [SetTimeout (if is_multipart c then 30000 else 20000), Abort, ClearTimeout])
   \<and> map fsignal (fetched (snd (perform net c))) = [ControllerSignal]
   \<and> ((\<forall>rq. (if is_multipart c then 30000 else 20000) \<le> latency (net rq)) \<longrightarrow>
        fst (perform net c) = Inl AbortError
        \<and> timer_events (snd (perform net c))
            = [SetTimeout (if is_multipart c then 30000 else 20000), Abort, ClearTimeout])
   \<and> ((\<forall>rq. latency (net rq) < (if is_multipart c then 30000 else 20000)) \<longrightarrow>
        timer_events (snd (perform net c))
            = [SetTimeout (if is_multipart c then 30000 else 20000), ClearTimeout])"
proof (cases "is_multipart c")
  case True
  then obtain p form where pf: "perform net c = reqForm net p form None"
    using perform_multipart [of c net] by auto
  note t = reqForm_timer [OF own_signal_form, where p = p and form = form and net = net]
  show ?thesis
    using True t unfolding pf by (auto simp add: not_le [symmetric])
next
  case False
  then obtain p init where pf: "perform net c = req net p init"
      and sg: "fsignal (req_options p init) = ControllerSignal"
    using perform_json [of c net] by auto
  note t = req_timer [OF sg, where net = net]
  show ?thesis
    using False t unfolding pf by (auto simp add: not_le [symmetric])
qed

theorem api_calls_have_hard_timeout_witness:
  "fst (perform slow_network (VerificationStatus ''h1'')) = Inl AbortError
   \<and> timer_events (snd (perform slow_network (VerificationStatus ''h1'')))
       = [SetTimeout 20000, Abort, ClearTimeout]
   \<and> fst (perform slow_network (ArtifactsUpload ''sbom.json'' None)) = Inl AbortError
   \<and> timer_events (snd (perform slow_network (ArtifactsUpload ''sbom.json'' None)))
       = [SetTimeout 30000, Abort, ClearTimeout]
   \<and> timer_events (snd (perform fast_network (VerificationStatus ''h1'')))
       = [SetTimeout 20000, ClearTimeout]
   \<and> timer_events (snd (perform fast_network (ArtifactsUpload ''sbom.json'' None)))
       = [SetTimeout 30000, ClearTimeout]"
proof -
  have s1: "\<forall>rq. (if is_multipart (VerificationStatus ''h1'') then 30000 else 20000)
              \<le> latency (slow_network rq)"
    and s2: "\<forall>rq. (if is_multipart (ArtifactsUpload ''sbom.json'' None) then 30000 else 20000)
              \<le> latency (slow_network rq)"
    and f1: "\<forall>rq. latency (fast_network rq)
              < (if is_multipart (VerificationStatus ''h1'') then 30000 else 20000)"
    and f2: "\<forall>rq. latency (fast_network rq)
              < (if is_multipart (ArtifactsUpload ''sbom.json'' None) then 30000 else 20000)"
    by (simp_all add: slow_network_def fast_network_def latency_def)
  show ?thesis
    using api_calls_have_hard_timeout [of slow_network "VerificationStatus ''h1''"]
          api_calls_have_hard_timeout [of slow_network "ArtifactsUpload ''sbom.json'' None"]
          api_calls_have_hard_timeout [of fast_network "VerificationStatus ''h1''"]
          api_calls_have_hard_timeout [of fast_network "ArtifactsUpload ''sbom.json'' None"]
          s1 s2 f1 f2
    by simp
qed

section \<open>Printable export: results\<close>




section \<open>API test runner: results\<close>

text \<open>
  C8. The script starts the API server in the background, sleeps 5 seconds, runs the
  integration test, kills the server, and exits with the exit status of the test; the
  success banner is printed exactly when that status is 0 and the failure banner exactly
  when it is not.
\<close>

theorem run_api_test_propagates_exit_code:
  "process_steps (run_api_test env)
     = [StartInBackground ''python3 -m app.main'', Sleep 5,
        Run ''python3 $SCRIPT_DIR/test_api_integration.py'', Kill (server_pid env),
        Exit (test_status env)]
   \<and> exit_code (run_api_test env) = Some (test_status env)
   \<and> last (run_api_test env) = Exit (test_status env)
   \<and> (Echo (check_mark @ '' API Integration Test: SUCCESS'') \<in> set (run_api_test env))
       = (test_status env = 0)
   \<and> (Echo (cross_mark @ '' API Integration Test: FAILED'') \<in> set (run_api_test env))
       = (test_status env \<noteq> 0)"
proof -
  have steps: "process_steps (run_api_test env)
     = [StartInBackground ''python3 -m app.main'', Sleep 5,
        Run ''python3 $SCRIPT_DIR/test_api_integration.py'', Kill (server_pid env),
        Exit (test_status env)]"
    by (simp add: run_api_test_def banner_def)
  have code: "exit_code (run_api_test env) = Some (test_status env)"
    by (simp add: run_api_test_def banner_def)
  have final: "last (run_api_test env) = Exit (test_status env)"
    by (simp add: run_api_test_def)
  have ok_banner: "(Echo (check_mark @ '' API Integration Test: SUCCESS'') \<in> set (run_api_test env))
       = (test_status env = 0)"
    by (simp add: run_api_test_def banner_def check_mark_def cross_mark_def)
  have ko_banner: "(Echo (cross_mark @ '' API Integration Test: FAILED'') \<in> set (run_api_test env))
       = (test_status env \<noteq> 0)"
    by (simp add: run_api_test_def banner_def check_mark_def cross_mark_def)
  show ?thesis
    using steps code final ok_banner ko_banner by blast
qed

theorem run_api_test_propagates_exit_code_witness:
  "exit_code (run_api_test \<lparr>venv_exists = True, server_pid = 4242, test_status = 0\<rparr>) = Some 0
   \<and> Echo (check_mark @ '' API Integration Test: SUCCESS'')
       \<in> set (run_api_test \<lparr>venv_exists = True, server_pid = 4242, test_status = 0\<rparr>)
   \<and> exit_code (run_api_test \<lparr>venv_exists = False, server_pid = 4242, test_status = 1\<rparr>) = Some 1
   \<and> Echo (cross_mark @ '' API Integration Test: FAILED'')
       \<in> set (run_api_test \<lparr>venv_exists = False, server_pid = 4242, test_status = 1\<rparr>)
   \<and> process_steps (run_api_test \<lparr>venv_exists = False, server_pid = 4242, test_status = 1\<rparr>)
       = [StartInBackground ''python3 -m app.main'', Sleep 5,
          Run ''python3 $SCRIPT_DIR/test_api_integration.py'', Kill 4242, Exit 1]"
  using run_api_test_propagates_exit_code
          [of "\<lparr>venv_exists = True, server_pid = 4242, test_status = 0\<rparr>"]
        run_api_test_propagates_exit_code
          [of "\<lparr>venv_exists = False, server_pid = 4242, test_status = 1\<rparr>"]
  by simp

end
